theory Spec2Isabelle
  imports Complex_Main
begin

section \<open>JavaScript numbers\<close>

text \<open>
  The canvas code computes with JavaScript numbers. A number is modelled as an exact
  real, or one of the three non-finite values \<open>Infinity\<close>, \<open>-Infinity\<close> and \<open>NaN\<close>, so that a
  division by zero is what JavaScript makes of it and not HOL's \<open>a / 0 = 0\<close>.
  Arithmetic on finite values is exact: the rounding of 64-bit floating point is not
  modelled, and zero carries no sign (a zero divisor is read as \<open>+0\<close>).
\<close>

datatype number = Fin real | PosInfinity | NegInfinity | NaN

instantiation number :: "{zero,one,plus,uminus,minus,times,inverse,abs,sgn,ord}"
begin

definition zero_number :: number where
  "zero_number = Fin 0"

definition one_number :: number where
  "one_number = Fin 1"

fun plus_number :: "number \<Rightarrow> number \<Rightarrow> number" where
  "plus_number (Fin a) (Fin b) = Fin (a + b)"
| "plus_number NaN _ = NaN"
| "plus_number _ NaN = NaN"
| "plus_number PosInfinity NegInfinity = NaN"
| "plus_number NegInfinity PosInfinity = NaN"
| "plus_number PosInfinity _ = PosInfinity"
| "plus_number _ PosInfinity = PosInfinity"
| "plus_number NegInfinity _ = NegInfinity"
| "plus_number _ NegInfinity = NegInfinity"

fun uminus_number :: "number \<Rightarrow> number" where
  "uminus_number (Fin a) = Fin (- a)"
| "uminus_number PosInfinity = NegInfinity"
| "uminus_number NegInfinity = PosInfinity"
| "uminus_number NaN = NaN"

definition minus_number :: "number \<Rightarrow> number \<Rightarrow> number" where
  "minus_number a b = a + (- b)"

fun times_number :: "number \<Rightarrow> number \<Rightarrow> number" where
  "times_number (Fin a) (Fin b) = Fin (a * b)"
| "times_number NaN _ = NaN"
| "times_number _ NaN = NaN"
| "times_number PosInfinity (Fin b) =
     (if b = 0 then NaN else if 0 < b then PosInfinity else NegInfinity)"
| "times_number NegInfinity (Fin b) =
     (if b = 0 then NaN else if 0 < b then NegInfinity else PosInfinity)"
| "times_number (Fin a) PosInfinity =
     (if a = 0 then NaN else if 0 < a then PosInfinity else NegInfinity)"
| "times_number (Fin a) NegInfinity =
     (if a = 0 then NaN else if 0 < a then NegInfinity else PosInfinity)"
| "times_number PosInfinity PosInfinity = PosInfinity"
| "times_number PosInfinity NegInfinity = NegInfinity"
| "times_number NegInfinity PosInfinity = NegInfinity"
| "times_number NegInfinity NegInfinity = PosInfinity"

fun divide_number :: "number \<Rightarrow> number \<Rightarrow> number" where
  "divide_number (Fin a) (Fin b) =
     (if b \<noteq> 0 then Fin (a / b)
      else if 0 < a then PosInfinity else if a < 0 then NegInfinity else NaN)"
| "divide_number NaN _ = NaN"
| "divide_number _ NaN = NaN"
| "divide_number (Fin a) PosInfinity = Fin 0"
| "divide_number (Fin a) NegInfinity = Fin 0"
| "divide_number PosInfinity (Fin b) = (if 0 \<le> b then PosInfinity else NegInfinity)"
| "divide_number NegInfinity (Fin b) = (if 0 \<le> b then NegInfinity else PosInfinity)"
| "divide_number PosInfinity PosInfinity = NaN"
| "divide_number PosInfinity NegInfinity = NaN"
| "divide_number NegInfinity PosInfinity = NaN"
| "divide_number NegInfinity NegInfinity = NaN"

definition inverse_number :: "number \<Rightarrow> number" where
  "inverse_number a = divide (Fin 1) a"

text \<open>\<open>Math.abs\<close> and \<open>Math.sign\<close>.\<close>

fun abs_number :: "number \<Rightarrow> number" where
  "abs_number (Fin a) = Fin \<bar>a\<bar>"
| "abs_number PosInfinity = PosInfinity"
| "abs_number NegInfinity = PosInfinity"
| "abs_number NaN = NaN"

fun sgn_number :: "number \<Rightarrow> number" where
  "sgn_number (Fin a) = Fin (sgn a)"
| "sgn_number PosInfinity = Fin 1"
| "sgn_number NegInfinity = Fin (- 1)"
| "sgn_number NaN = NaN"

text \<open>The comparisons \<open><\<close> and \<open><=\<close>: every comparison with \<open>NaN\<close> is false.\<close>

fun less_number :: "number \<Rightarrow> number \<Rightarrow> bool" where
  "less_number (Fin a) (Fin b) = (a < b)"
| "less_number NaN _ = False"
| "less_number _ NaN = False"
| "less_number _ NegInfinity = False"
| "less_number PosInfinity _ = False"
| "less_number (Fin a) PosInfinity = True"
| "less_number NegInfinity (Fin b) = True"
| "less_number NegInfinity PosInfinity = True"

fun less_eq_number :: "number \<Rightarrow> number \<Rightarrow> bool" where
  "less_eq_number (Fin a) (Fin b) = (a \<le> b)"
| "less_eq_number NaN _ = False"
| "less_eq_number _ NaN = False"
| "less_eq_number NegInfinity _ = True"
| "less_eq_number _ PosInfinity = True"
| "less_eq_number (Fin a) NegInfinity = False"
| "less_eq_number PosInfinity (Fin b) = False"
| "less_eq_number PosInfinity NegInfinity = False"

instance ..

end

instance number :: numeral
proof
  fix a b c :: number
  show "a + b + c = a + (b + c)"
    by (cases a; cases b; cases c) simp_all
qed

text \<open>\<open>a === b\<close> on numbers: \<open>NaN\<close> is not equal to itself.\<close>

definition strict_eq :: "number \<Rightarrow> number \<Rightarrow> bool" where
  "strict_eq a b = (a \<noteq> NaN \<and> a = b)"

text \<open>\<open>Math.round\<close> rounds to the nearest integer, a tie towards \<open>+Infinity\<close>.\<close>

fun Math_round :: "number \<Rightarrow> number" where
  "Math_round (Fin a) = Fin (of_int \<lfloor>a + 1 / 2\<rfloor>)"
| "Math_round PosInfinity = PosInfinity"
| "Math_round NegInfinity = NegInfinity"
| "Math_round NaN = NaN"

fun Math_floor :: "number \<Rightarrow> number" where
  "Math_floor (Fin a) = Fin (of_int \<lfloor>a\<rfloor>)"
| "Math_floor PosInfinity = PosInfinity"
| "Math_floor NegInfinity = NegInfinity"
| "Math_floor NaN = NaN"

text \<open>\<open>Math.max\<close> and \<open>Math.min\<close> of two numbers: \<open>NaN\<close> if either is.\<close>

definition Math_max :: "number \<Rightarrow> number \<Rightarrow> number" where
  "Math_max a b = (if a = NaN \<or> b = NaN then NaN else if a \<le> b then b else a)"

definition Math_min :: "number \<Rightarrow> number \<Rightarrow> number" where
  "Math_min a b = (if a = NaN \<or> b = NaN then NaN else if a \<le> b then a else b)"

text \<open>
  \<open>Math.PI\<close> is the 64-bit floating-point number nearest to pi, which is
  \<open>884279719003555 / 2^48\<close>. A division of it by 4 is exact.
\<close>

definition Math_PI :: number where
  "Math_PI = Fin (884279719003555 / 2 ^ 48)"

text \<open>
  The remainder \<open>a % b\<close>: the dividend less the divisor times the quotient truncated
  towards zero, so the result has the sign of the dividend.
\<close>

definition trunc :: "real \<Rightarrow> int" where
  "trunc r = (if 0 \<le> r then \<lfloor>r\<rfloor> else \<lceil>r\<rceil>)"

fun js_rem :: "number \<Rightarrow> number \<Rightarrow> number" where
  "js_rem (Fin a) (Fin b) = (if b = 0 then NaN else Fin (a - b * of_int (trunc (a / b))))"
| "js_rem (Fin a) PosInfinity = Fin a"
| "js_rem (Fin a) NegInfinity = Fin a"
| "js_rem (Fin a) NaN = NaN"
| "js_rem PosInfinity _ = NaN"
| "js_rem NegInfinity _ = NaN"
| "js_rem NaN _ = NaN"

text \<open>
  Modelled from the spec: \<open>clamp\<close> is imported from the lodash-es package, which is
  not among the sources. The spec says that \<open>setScale\<close> clamps the new scale to
  \<open>[0.1, 20]\<close>; the definition follows the library's \<open>clamp(number, lower, upper)\<close>,
  which bounds the number from above, then from below, and passes \<open>NaN\<close> through.
\<close>

definition clamp :: "number \<Rightarrow> number \<Rightarrow> number \<Rightarrow> number" where
  "clamp n lower upper =
     (if n = NaN then NaN
      else let n1 = (if n \<le> upper then n else upper)
           in if lower \<le> n1 then n1 else lower)"

section \<open>Geometry and Konva nodes\<close>

text \<open>
  \<open>Coordinate\<close> and \<open>Rect\<close> are the types of \<open>features/controlLayers/store/types\<close>. A
  \<open>Box\<close> is the bounding box Konva's transformer hands to \<open>boundBoxFunc\<close> (a rect with a
  rotation in radians). A \<open>Node\<close> holds the attributes of a Konva node that the code
  below reads with a getter or writes with a setter or \<open>setAttrs\<close>.
\<close>

record Coordinate =
  x :: number
  y :: number

record Rect = Coordinate +
  width :: number
  height :: number

record Box = Rect +
  rotation :: number

record Node = Box +
  scaleX :: number
  scaleY :: number
  visible :: bool
  listening :: bool

text \<open>A Konva transformer is a node that also holds the names of the nodes attached to it.\<close>

record TransformerNode = Node +
  nodes :: "string list"

text \<open>The value of the \<open>$stageAttrs\<close> atom.\<close>

record StageAttrs = Rect +
  scale :: number

text \<open>A new Konva node: at the origin, of no size, unscaled, unrotated, visible, listening.\<close>

definition new_Node :: Node where
  "new_Node = \<lparr>x = 0, y = 0, width = 0, height = 0, rotation = 0,
     scaleX = 1, scaleY = 1, visible = True, listening = True\<rparr>"

section \<open>The state facade: CanvasStateApi\<close>

record Identified =
  id' :: string

record PositionChangedArg = Identified +
  position :: Coordinate

text \<open>
  The actions of \<open>canvasV2Slice\<close> that \<open>onPosChanged\<close> and \<open>onScaleChanged\<close> dispatch. The
  reducers are not among the sources: the store is the sequence of the actions
  dispatched to it, the latest last. The type \<open>ScaleChangedArg\<close> is a parameter \<open>'s\<close>.
  An entity type (\<open>CanvasEntity['type']\<close>) and a tool are the strings they are at run time.
\<close>

datatype 's action =
    layerTranslated PositionChangedArg
  | rgTranslated PositionChangedArg
  | imTranslated PositionChangedArg
  | caTranslated PositionChangedArg
  | imScaled 's
  | rgScaled 's
  | caScaled 's

type_synonym 's store = "'s action list"

definition dispatch :: "'s action \<Rightarrow> 's store \<Rightarrow> 's store" where
  "dispatch a st = st @ [a]"

definition onPosChanged :: "PositionChangedArg \<Rightarrow> string \<Rightarrow> 's store \<Rightarrow> 's store" where
  "onPosChanged arg entityType st =
     (if entityType = ''layer'' then dispatch (layerTranslated arg) st
      else if entityType = ''regional_guidance'' then dispatch (rgTranslated arg) st
      else if entityType = ''inpaint_mask'' then dispatch (imTranslated arg) st
      else if entityType = ''control_adapter'' then dispatch (caTranslated arg) st
      else st)"

definition onScaleChanged :: "'s \<Rightarrow> string \<Rightarrow> 's store \<Rightarrow> 's store" where
  "onScaleChanged arg entityType st =
     (if entityType = ''inpaint_mask'' then dispatch (imScaled arg) st
      else if entityType = ''regional_guidance'' then dispatch (rgScaled arg) st
      else if entityType = ''control_adapter'' then dispatch (caScaled arg) st
      else st)"

section \<open>The entity transformer: CanvasTransformer\<close>

datatype InteractionMode = all | drag | off

text \<open>
  The parent \<open>CanvasLayer\<close>, as far as the transformer touches it: its id, its last
  known bbox, the Konva object group and layer, and whether its renderer has objects.
\<close>

record CanvasLayer = Identified +
  bbox :: Rect
  objectGroup :: Node
  layer :: Node
  hasObjects :: bool

record CanvasTransformer =
  parent :: CanvasLayer
  isTransforming :: bool
  interactionMode :: InteractionMode
  isDragEnabled :: bool
  isTransformEnabled :: bool
  transformer :: TransformerNode
  proxyRect :: Node
  bboxOutline :: Node

definition PROXY_RECT_NAME :: string where
  "PROXY_RECT_NAME = ''entity_transformer:proxy_rect''"

text \<open>The fields and Konva nodes as the constructor leaves them.\<close>

definition new_CanvasTransformer :: "CanvasLayer \<Rightarrow> CanvasTransformer" where
  "new_CanvasTransformer p = \<lparr>
     parent = p,
     isTransforming = False,
     interactionMode = off,
     isDragEnabled = False,
     isTransformEnabled = False,
     transformer = Node.extend (new_Node\<lparr>visible := False, listening := False\<rparr>)
       (TransformerNode.fields []),
     proxyRect = new_Node\<lparr>listening := False\<rparr>,
     bboxOutline = new_Node\<lparr>listening := False\<rparr>\<rparr>"

subsection \<open>boundBoxFunc\<close>

text \<open>
  The arguments \<open>activeAnchor\<close> and \<open>shiftKey\<close> are what
  \<open>this.konva.transformer.getActiveAnchor()\<close> (a name or \<open>null\<close>) and
  \<open>this.manager.stateApi.$shiftKey.get()\<close> return.
\<close>

definition boundBoxFunc :: "string option \<Rightarrow> bool \<Rightarrow> Box \<Rightarrow> Box \<Rightarrow> Box" where
  "boundBoxFunc activeAnchor shiftKey oldBoundBox newBoundBox =
     (if activeAnchor \<noteq> Some ''rotater'' then newBoundBox
      else if shiftKey \<and> 0 < \<bar>js_rem (rotation newBoundBox) (Math_PI / 4)\<bar> then oldBoundBox
      else newBoundBox)"

subsection \<open>The transformend handler\<close>

text \<open>The constants of the handler, each a function of the proxy rect it reads.\<close>

definition snappedX :: "Node \<Rightarrow> number" where
  "snappedX p = Math_round (x p)"

definition snappedY :: "Node \<Rightarrow> number" where
  "snappedY p = Math_round (y p)"

definition targetWidth :: "Node \<Rightarrow> number" where
  "targetWidth p = Math_max \<bar>Math_round (width p * scaleX p)\<bar> 1"

definition targetHeight :: "Node \<Rightarrow> number" where
  "targetHeight p = Math_max \<bar>Math_round (height p * scaleY p)\<bar> 1"

definition snappedScaleX :: "Node \<Rightarrow> number" where
  "snappedScaleX p = (targetWidth p / width p) * sgn (scaleX p)"

definition snappedScaleY :: "Node \<Rightarrow> number" where
  "snappedScaleY p = (targetHeight p / height p) * sgn (scaleY p)"

definition transformend :: "CanvasTransformer \<Rightarrow> CanvasTransformer" where
  "transformend t =
     (let p = proxyRect t
      in t\<lparr>proxyRect := p\<lparr>x := snappedX p, y := snappedY p,
               scaleX := snappedScaleX p, scaleY := snappedScaleY p\<rparr>,
           parent := (parent t)\<lparr>objectGroup := (objectGroup (parent t))\<lparr>x := snappedX p,
               y := snappedY p, scaleX := snappedScaleX p, scaleY := snappedScaleY p\<rparr>\<rparr>\<rparr>)"

subsection \<open>The dragend handler\<close>

definition dragend :: "CanvasTransformer \<Rightarrow> 's store \<Rightarrow> 's store" where
  "dragend t st =
     (if isTransforming t then st
      else let position = \<lparr>x = x (proxyRect t) - x (bbox (parent t)),
                            y = y (proxyRect t) - y (bbox (parent t))\<rparr>
           in onPosChanged \<lparr>id' = id' (parent t), position = position\<rparr> ''layer'' st)"

subsection \<open>Interaction modes\<close>

definition enableTransform :: "CanvasTransformer \<Rightarrow> CanvasTransformer" where
  "enableTransform t = t\<lparr>isTransformEnabled := True,
     transformer := (transformer t)\<lparr>visible := True, listening := True,
       nodes := [PROXY_RECT_NAME]\<rparr>\<rparr>"

definition disableTransform :: "CanvasTransformer \<Rightarrow> CanvasTransformer" where
  "disableTransform t = t\<lparr>isTransformEnabled := False,
     transformer := (transformer t)\<lparr>visible := False, listening := False, nodes := []\<rparr>\<rparr>"

definition enableDrag :: "CanvasTransformer \<Rightarrow> CanvasTransformer" where
  "enableDrag t = t\<lparr>isDragEnabled := True,
     proxyRect := (proxyRect t)\<lparr>visible := True, listening := True\<rparr>\<rparr>"

definition disableDrag :: "CanvasTransformer \<Rightarrow> CanvasTransformer" where
  "disableDrag t = t\<lparr>isDragEnabled := False,
     proxyRect := (proxyRect t)\<lparr>visible := False, listening := False\<rparr>\<rparr>"

definition showBboxOutline :: "CanvasTransformer \<Rightarrow> CanvasTransformer" where
  "showBboxOutline t = t\<lparr>bboxOutline := (bboxOutline t)\<lparr>visible := True\<rparr>\<rparr>"

definition hideBboxOutline :: "CanvasTransformer \<Rightarrow> CanvasTransformer" where
  "hideBboxOutline t = t\<lparr>bboxOutline := (bboxOutline t)\<lparr>visible := False\<rparr>\<rparr>"

fun setInteractionMode :: "InteractionMode \<Rightarrow> CanvasTransformer \<Rightarrow> CanvasTransformer" where
  "setInteractionMode drag t =
     showBboxOutline (disableTransform (enableDrag (t\<lparr>interactionMode := drag\<rparr>)))"
| "setInteractionMode all t =
     hideBboxOutline (enableTransform (enableDrag (t\<lparr>interactionMode := all\<rparr>)))"
| "setInteractionMode off t =
     hideBboxOutline (disableTransform (disableDrag (t\<lparr>interactionMode := off\<rparr>)))"

text \<open>\<open>this.parent.konva.layer.listening(b)\<close>.\<close>

definition layer_listening :: "bool \<Rightarrow> CanvasTransformer \<Rightarrow> CanvasTransformer" where
  "layer_listening b t = t\<lparr>parent := (parent t)\<lparr>layer := (layer (parent t))\<lparr>listening := b\<rparr>\<rparr>\<rparr>"

text \<open>
  \<open>syncInteractionState\<close>: the arguments \<open>toolSelected\<close> and \<open>isSelected\<close> are what
  \<open>this.manager.stateApi.getToolState().selected\<close> and
  \<open>this.manager.stateApi.getIsSelected(this.parent.id)\<close> return.
\<close>

definition syncInteractionState :: "string \<Rightarrow> bool \<Rightarrow> CanvasTransformer \<Rightarrow> CanvasTransformer" where
  "syncInteractionState toolSelected isSelected t =
     (if \<not> hasObjects (parent t) then setInteractionMode off (layer_listening False t)
      else if isSelected \<and> \<not> isTransforming t \<and> toolSelected = ''move''
        then setInteractionMode drag (layer_listening True t)
      else if isSelected \<and> isTransforming t
        then (if toolSelected \<noteq> ''view''
              then setInteractionMode all (layer_listening True t)
              else setInteractionMode off (layer_listening False t))
      else setInteractionMode off (layer_listening False t))"

section \<open>The stage controller: CanvasStageModule\<close>

text \<open>The Konva stage, and the \<open>$stageAttrs\<close> atom the module publishes to.\<close>

record CanvasStageModule =
  stage :: Node
  stageAttrs :: StageAttrs

definition MIN_CANVAS_SCALE :: number where
  "MIN_CANVAS_SCALE = 0.1"

definition MAX_CANVAS_SCALE :: number where
  "MAX_CANVAS_SCALE = 20"

text \<open>
  \<open>getVisibleRect\<close>: the argument \<open>rectUnion\<close> is the union of the rects of the enabled
  adapters (\<open>getRectUnion\<close> and the adapters are not among the sources), \<open>bboxRect\<close> is
  \<open>this.manager.stateApi.getBbox().rect\<close>.
\<close>

definition getVisibleRect :: "Rect \<Rightarrow> Rect \<Rightarrow> Rect" where
  "getVisibleRect rectUnion bboxRect =
     (if strict_eq (width rectUnion) 0 \<or> strict_eq (height rectUnion) 0 then bboxRect
      else rectUnion)"

definition fitRect :: "Rect \<Rightarrow> CanvasStageModule \<Rightarrow> CanvasStageModule" where
  "fitRect rect m =
     (let padding = 20;
          availableWidth = width (stage m) - padding * 2;
          availableHeight = height (stage m) - padding * 2;
          scale' = Math_min (Math_min (availableWidth / width rect)
                     (availableHeight / height rect)) 1;
          x' = - x rect * scale' + padding + (availableWidth - width rect * scale') / 2;
          y' = - y rect * scale' + padding + (availableHeight - height rect * scale') / 2
      in m\<lparr>stage := (stage m)\<lparr>x := x', y := y', scaleX := scale', scaleY := scale'\<rparr>,
           stageAttrs := (stageAttrs m)\<lparr>x := x', y := y', scale := scale'\<rparr>\<rparr>)"

definition fitBboxToStage :: "Rect \<Rightarrow> CanvasStageModule \<Rightarrow> CanvasStageModule" where
  "fitBboxToStage bboxRect m = fitRect bboxRect m"

definition fitLayersToStage :: "Rect \<Rightarrow> Rect \<Rightarrow> CanvasStageModule \<Rightarrow> CanvasStageModule" where
  "fitLayersToStage rectUnion bboxRect m = fitRect (getVisibleRect rectUnion bboxRect) m"

text \<open>
  \<open>fitStageToContainer\<close>: the arguments are the container's \<open>offsetWidth\<close> and
  \<open>offsetHeight\<close>.
\<close>

definition fitStageToContainer :: "number \<Rightarrow> number \<Rightarrow> CanvasStageModule \<Rightarrow> CanvasStageModule" where
  "fitStageToContainer offsetWidth offsetHeight m =
     (let stage' = (stage m)\<lparr>width := offsetWidth, height := offsetHeight\<rparr>
      in m\<lparr>stage := stage',
           stageAttrs := \<lparr>x = x stage', y = y stage', width = width stage',
             height = height stage', scale = scaleX stage'\<rparr>\<rparr>)"

text \<open>
  \<open>setScale(scale, center)\<close>, the center given. The published attributes are read back
  from the stage after \<open>setAttrs\<close>.
\<close>

definition setScale :: "number \<Rightarrow> Coordinate \<Rightarrow> CanvasStageModule \<Rightarrow> CanvasStageModule" where
  "setScale scale' center m =
     (let newScale = clamp (Math_round (scale' * 100) / 100) MIN_CANVAS_SCALE MAX_CANVAS_SCALE;
          oldScale = scaleX (stage m);
          deltaX = (x center - x (stage m)) / oldScale;
          deltaY = (y center - y (stage m)) / oldScale;
          newX = x center - deltaX * newScale;
          newY = y center - deltaY * newScale;
          stage' = (stage m)\<lparr>x := newX, y := newY, scaleX := newScale, scaleY := newScale\<rparr>
      in m\<lparr>stage := stage',
           stageAttrs := \<lparr>x = Math_floor (x stage'), y = Math_floor (y stage'),
             width = width stage', height = height stage', scale = scaleX stage'\<rparr>\<rparr>)"


section \<open>Example states\<close>

text \<open>
  A layer with content whose bbox is 100 by 50, and its transformer with the proxy rect at
  (10.4, -3.5), of the bbox's size, scaled by \<open>sx\<close> and \<open>sy\<close>.
\<close>

definition example_layer :: CanvasLayer where
  "example_layer = \<lparr>id' = ''layer_1'', bbox = \<lparr>x = 0, y = 0, width = 100, height = 50\<rparr>,
     objectGroup = new_Node, layer = new_Node, hasObjects = True\<rparr>"

definition example_transformer :: "number \<Rightarrow> number \<Rightarrow> CanvasTransformer" where
  "example_transformer sx sy = (new_CanvasTransformer example_layer)\<lparr>
     proxyRect := new_Node\<lparr>x := Fin (52 / 5), y := Fin (- 7 / 2), width := 100, height := 50,
       scaleX := sx, scaleY := sy, listening := False\<rparr>\<rparr>"

text \<open>A new stage fitted to a container of the given size, then panned and zoomed.\<close>

definition example_stage :: "number \<Rightarrow> number \<Rightarrow> CanvasStageModule" where
  "example_stage offsetWidth offsetHeight = fitStageToContainer offsetWidth offsetHeight
     \<lparr>stage = new_Node, stageAttrs = \<lparr>x = 0, y = 0, width = 0, height = 0, scale = 1\<rparr>\<rparr>"

definition example_zoomed_stage :: CanvasStageModule where
  "example_zoomed_stage = (example_stage 800 600)\<lparr>
     stage := (stage (example_stage 800 600))\<lparr>x := 30, y := - 12, scaleX := 2, scaleY := 2\<rparr>\<rparr>"

definition example_center :: Coordinate where
  "example_center = \<lparr>x = 400, y = 300\<rparr>"

section \<open>Arithmetic of numbers\<close>

lemma numeral_number: "(numeral k :: number) = Fin (numeral k)"
  by (induction k) (simp_all only: numeral.simps one_number_def plus_number.simps)

lemma minus_Fin: "Fin a - Fin b = Fin (a - b)"
  by (simp add: minus_number_def)

lemma Math_max_Fin: "Math_max (Fin a) (Fin b) = Fin (max a b)"
  by (simp add: Math_max_def max_def)

lemma Math_min_Fin: "Math_min (Fin a) (Fin b) = Fin (min a b)"
  by (simp add: Math_min_def min_def)

lemma Math_min_PosInfinity:
  "Math_min PosInfinity (Fin b) = Fin b"
  "Math_min PosInfinity PosInfinity = PosInfinity"
  by (simp_all add: Math_min_def)

lemma clamp_Fin: "clamp (Fin a) (Fin lo) (Fin hi) = Fin (max lo (min a hi))"
  by (simp add: clamp_def Let_def max_def min_def)

lemma trunc_of_int: "trunc (of_int k) = k"
  by (simp add: trunc_def)

text \<open>The remainder is zero exactly at the integer multiples of the divisor.\<close>

lemma js_rem_zero_iff:
  assumes "b \<noteq> 0"
  shows "(a - b * of_int (trunc (a / b)) = 0) = (\<exists>k::int. a = of_int k * b)"
proof
  assume "a - b * of_int (trunc (a / b)) = 0"
  then have "a = of_int (trunc (a / b)) * b"
    by (simp add: mult.commute)
  then show "\<exists>k::int. a = of_int k * b" ..
next
  assume "\<exists>k::int. a = of_int k * b"
  then obtain k :: int where k: "a = of_int k * b" ..
  with assms have "a / b = of_int k"
    by simp
  then have "trunc (a / b) = k"
    by (simp add: trunc_of_int)
  with k show "a - b * of_int (trunc (a / b)) = 0"
    by (simp add: mult.commute)
qed

section \<open>The transformend handler at a scale factor of zero\<close>

lemma transformend_proxyRect:
  "proxyRect (transformend t) = (proxyRect t)\<lparr>x := snappedX (proxyRect t),
     y := snappedY (proxyRect t), scaleX := snappedScaleX (proxyRect t),
     scaleY := snappedScaleY (proxyRect t)\<rparr>"
  by (simp add: transformend_def Let_def)

lemma transformend_objectGroup:
  "objectGroup (parent (transformend t)) = (objectGroup (parent t))\<lparr>
     x := snappedX (proxyRect t), y := snappedY (proxyRect t),
     scaleX := snappedScaleX (proxyRect t), scaleY := snappedScaleY (proxyRect t)\<rparr>"
  by (simp add: transformend_def Let_def)

lemma example_proxyRect:
  "proxyRect (example_transformer sx sy) = \<lparr>x = Fin (52 / 5), y = Fin (- 7 / 2),
     width = Fin 100, height = Fin 50, rotation = Fin 0, scaleX = sx, scaleY = sy,
     visible = True, listening = False\<rparr>"
  by (simp add: example_transformer_def new_Node_def numeral_number zero_number_def)

text \<open>
  Claim C1 says that at every transform end the target width and height are
  \<open>max (abs (round (w * sx))) 1\<close> and \<open>max (abs (round (h * sy))) 1\<close>, integers that are at
  least 1, that the scale factors written back reproduce them when multiplied by \<open>w\<close>
  and \<open>h\<close>, and that the position is rounded. The handler computes the scale to write
  back as \<open>targetWidth / width * Math.sign(scaleX)\<close>, and \<open>Math.sign(0)\<close> is 0. On the
  example proxy rect, 100 by 50 at (10.4, -3.5), with the scale factors 0 and 1: the
  target is 1 by 50, the position becomes (10, -3) and the vertical scale stays 1, as
  the claim says; but the horizontal scale written to the proxy rect and to the object
  group of the parent is 0, so the width times the scale is 0 and not the target
  width 1.
\<close>

theorem transformend_zero_scale:
  "targetWidth (proxyRect (example_transformer 0 1)) = Fin 1
   \<and> targetHeight (proxyRect (example_transformer 0 1)) = Fin 50
   \<and> x (proxyRect (transformend (example_transformer 0 1))) = Fin 10
   \<and> y (proxyRect (transformend (example_transformer 0 1))) = Fin (- 3)
   \<and> scaleY (proxyRect (transformend (example_transformer 0 1))) = Fin 1
   \<and> height (proxyRect (example_transformer 0 1))
        * scaleY (proxyRect (transformend (example_transformer 0 1)))
       = targetHeight (proxyRect (example_transformer 0 1))
   \<and> scaleX (proxyRect (transformend (example_transformer 0 1))) = Fin 0
   \<and> scaleX (objectGroup (parent (transformend (example_transformer 0 1)))) = Fin 0
   \<and> width (proxyRect (example_transformer 0 1))
        * scaleX (proxyRect (transformend (example_transformer 0 1))) = Fin 0
   \<and> \<bar>width (proxyRect (example_transformer 0 1))
        * scaleX (proxyRect (transformend (example_transformer 0 1)))\<bar>
       \<noteq> targetWidth (proxyRect (example_transformer 0 1))"
  by (simp add: example_proxyRect transformend_proxyRect transformend_objectGroup
      snappedX_def snappedY_def snappedScaleX_def snappedScaleY_def targetWidth_def
      targetHeight_def Math_max_Fin zero_number_def one_number_def)

section \<open>setScale keeps the center in place and the scale in range\<close>

lemma newScale_clamp:
  "clamp (Math_round (Fin s * 100) / 100) MIN_CANVAS_SCALE MAX_CANVAS_SCALE
     = Fin (max (1 / 10) (min (of_int (round (s * 100)) / 100) 20))"
  by (simp add: MIN_CANVAS_SCALE_def MAX_CANVAS_SCALE_def numeral_number one_number_def
      clamp_Fin round_def)

lemma newScale_hundredths:
  "max (1 / 10) (min (real_of_int r / 100) 20) = of_int (max 10 (min r 2000)) / 100"
  by (simp add: max_def min_def)

lemma newScale_Fin:
  "clamp (Math_round (Fin s * 100) / 100) MIN_CANVAS_SCALE MAX_CANVAS_SCALE
     = Fin (of_int (max 10 (min (round (s * 100)) 2000)) / 100)"
  by (simp only: newScale_clamp newScale_hundredths)

lemma newScale_range:
  "MIN_CANVAS_SCALE \<le> clamp (Math_round (Fin s * 100) / 100) MIN_CANVAS_SCALE MAX_CANVAS_SCALE"
  "clamp (Math_round (Fin s * 100) / 100) MIN_CANVAS_SCALE MAX_CANVAS_SCALE \<le> MAX_CANVAS_SCALE"
  unfolding newScale_clamp
  by (simp_all add: MIN_CANVAS_SCALE_def MAX_CANVAS_SCALE_def numeral_number one_number_def)

lemma setScale_stage:
  "stage (setScale s c m) = (stage m)\<lparr>
      x := x c - (x c - x (stage m)) / scaleX (stage m)
             * clamp (Math_round (s * 100) / 100) MIN_CANVAS_SCALE MAX_CANVAS_SCALE,
      y := y c - (y c - y (stage m)) / scaleX (stage m)
             * clamp (Math_round (s * 100) / 100) MIN_CANVAS_SCALE MAX_CANVAS_SCALE,
      scaleX := clamp (Math_round (s * 100) / 100) MIN_CANVAS_SCALE MAX_CANVAS_SCALE,
      scaleY := clamp (Math_round (s * 100) / 100) MIN_CANVAS_SCALE MAX_CANVAS_SCALE\<rparr>"
  by (simp add: setScale_def Let_def)




lemma example_zoomed_stage_stage:
  "stage example_zoomed_stage = \<lparr>x = Fin 30, y = Fin (- 12), width = Fin 800, height = Fin 600,
     rotation = Fin 0, scaleX = Fin 2, scaleY = Fin 2, visible = True, listening = True\<rparr>"
  by (simp add: example_zoomed_stage_def example_stage_def fitStageToContainer_def Let_def
      new_Node_def numeral_number zero_number_def)

text \<open>
  Claim C2. For a call \<open>setScale(s, center)\<close> with a finite scale argument, on a stage
  with a finite offset and a finite old scale other than 0, and a finite center: the
  new scale is not 0, and \<open>(center.x - newX) / newScale = (center.x - oldX) / oldScale\<close>,
  likewise for \<open>y\<close>, exactly: the logical point under the center stays under it.
\<close>

theorem setScale_center_stable:
  fixes s px py ox oy os :: real
  assumes "os \<noteq> 0"
    and "x (stage m) = Fin ox" and "y (stage m) = Fin oy" and "scaleX (stage m) = Fin os"
    and "x c = Fin px" and "y c = Fin py"
  shows "scaleX (stage (setScale (Fin s) c m)) \<noteq> 0
    \<and> (x c - x (stage (setScale (Fin s) c m))) / scaleX (stage (setScale (Fin s) c m))
        = (x c - x (stage m)) / scaleX (stage m)
    \<and> (y c - y (stage (setScale (Fin s) c m))) / scaleX (stage (setScale (Fin s) c m))
        = (y c - y (stage m)) / scaleX (stage m)
    \<and> (x c - x (stage m)) / scaleX (stage m) = Fin ((px - ox) / os)
    \<and> (y c - y (stage m)) / scaleX (stage m) = Fin ((py - oy) / os)"
proof -
  obtain k :: int
    where k: "clamp (Math_round (Fin s * 100) / 100) MIN_CANVAS_SCALE MAX_CANVAS_SCALE
      = Fin (of_int k / 100)" and k10: "10 \<le> k"
    using newScale_Fin[of s] by auto
  show ?thesis
    using assms k10 by (simp add: setScale_stage k minus_Fin zero_number_def)
qed

text \<open>
  The example stage at offset (30, -12) and scale 2, zoomed to 3.14159 about (400, 300):
  the scale becomes 3.14, the offset (-180.9, -189.84), and the logical point
  (185, 156) stays under the center.
\<close>

theorem setScale_center_stable_witness:
  "scaleX (stage (setScale (Fin (314159 / 100000)) example_center example_zoomed_stage))
       = Fin (157 / 50)
   \<and> x (stage (setScale (Fin (314159 / 100000)) example_center example_zoomed_stage))
       = Fin (- 1809 / 10)
   \<and> y (stage (setScale (Fin (314159 / 100000)) example_center example_zoomed_stage))
       = Fin (- 4746 / 25)
   \<and> (x example_center
        - x (stage (setScale (Fin (314159 / 100000)) example_center example_zoomed_stage)))
       / scaleX (stage (setScale (Fin (314159 / 100000)) example_center example_zoomed_stage))
       = Fin 185
   \<and> (y example_center
        - y (stage (setScale (Fin (314159 / 100000)) example_center example_zoomed_stage)))
       / scaleX (stage (setScale (Fin (314159 / 100000)) example_center example_zoomed_stage))
       = Fin 156"
  using setScale_center_stable [of 2 example_zoomed_stage 30 "- 12" example_center 400 300
      "314159 / 100000"]
  by (simp add: example_zoomed_stage_stage example_center_def setScale_stage clamp_Fin
      MIN_CANVAS_SCALE_def MAX_CANVAS_SCALE_def numeral_number one_number_def minus_Fin)

lemma example_stage_stage:
  "stage (example_stage cw ch) = \<lparr>x = Fin 0, y = Fin 0, width = cw, height = ch,
     rotation = Fin 0, scaleX = Fin 1, scaleY = Fin 1, visible = True, listening = True\<rparr>"
  by (simp add: example_stage_def fitStageToContainer_def Let_def new_Node_def
      zero_number_def one_number_def)






section \<open>fitRect\<close>

lemma fitRect_scaleX:
  "scaleX (stage (fitRect rect m)) =
     Math_min (Math_min ((width (stage m) - 20 * 2) / width rect)
       ((height (stage m) - 20 * 2) / height rect)) 1"
  by (simp add: fitRect_def Let_def)

lemma fitRect_scaleY: "scaleY (stage (fitRect rect m)) = scaleX (stage (fitRect rect m))"
  by (simp add: fitRect_def Let_def)

lemma fitRect_x:
  "x (stage (fitRect rect m)) = - x rect * scaleX (stage (fitRect rect m)) + 20
     + ((width (stage m) - 20 * 2) - width rect * scaleX (stage (fitRect rect m))) / 2"
  by (simp add: fitRect_def Let_def)

lemma fitRect_y:
  "y (stage (fitRect rect m)) = - y rect * scaleX (stage (fitRect rect m)) + 20
     + ((height (stage m) - 20 * 2) - height rect * scaleX (stage (fitRect rect m))) / 2"
  by (simp add: fitRect_def Let_def)

lemma fitRect_stageAttrs:
  "stageAttrs (fitRect rect m) = (stageAttrs m)\<lparr>x := x (stage (fitRect rect m)),
     y := y (stage (fitRect rect m)), scale := scaleX (stage (fitRect rect m))\<rparr>"
  by (simp add: fitRect_def Let_def)

lemma fitRect_scale_Fin:
  assumes "width (stage m) = Fin cw" and "height (stage m) = Fin ch"
    and "width rect = Fin w" and "height rect = Fin h" and "w \<noteq> 0" and "h \<noteq> 0"
  shows "Math_min (Math_min ((width (stage m) - 20 * 2) / width rect)
            ((height (stage m) - 20 * 2) / height rect)) 1
         = Fin (min (min ((cw - 40) / w) ((ch - 40) / h)) 1)"
  using assms by (simp add: numeral_number one_number_def minus_Fin Math_min_Fin)

text \<open>
  Claim C6. For a rect of finite position and positive finite width and height, in a
  container whose available width and height (the size less 20 px of padding on each
  side) are positive: \<open>fitRect\<close> sets the scale, on both axes and in the published
  attributes, to \<open>min (availableW / rect.w) (availableH / rect.h) 1\<close>, which is positive
  and at most 1; and on screen the rect is centered: its left margin equals its right
  margin and its top margin equals its bottom margin (whether or not the aspect ratios
  match), each at least the padding.
\<close>

theorem fitRect_fits_and_centers:
  fixes cw ch rx ry w h :: real
  assumes "0 < w" and "0 < h" and "40 < cw" and "40 < ch"
    and "width (stage m) = Fin cw" and "height (stage m) = Fin ch"
    and "x rect = Fin rx" and "y rect = Fin ry"
    and "width rect = Fin w" and "height rect = Fin h"
  shows "scaleX (stage (fitRect rect m))
      = Math_min (Math_min ((width (stage m) - 40) / width rect)
          ((height (stage m) - 40) / height rect)) 1
    \<and> scaleX (stage (fitRect rect m)) = Fin (min (min ((cw - 40) / w) ((ch - 40) / h)) 1)
    \<and> scaleY (stage (fitRect rect m)) = scaleX (stage (fitRect rect m))
    \<and> scale (stageAttrs (fitRect rect m)) = scaleX (stage (fitRect rect m))
    \<and> x (stageAttrs (fitRect rect m)) = x (stage (fitRect rect m))
    \<and> y (stageAttrs (fitRect rect m)) = y (stage (fitRect rect m))
    \<and> 0 < scaleX (stage (fitRect rect m)) \<and> scaleX (stage (fitRect rect m)) \<le> 1
    \<and> x (stage (fitRect rect m)) + x rect * scaleX (stage (fitRect rect m))
        = width (stage m)
          - (x (stage (fitRect rect m))
             + (x rect + width rect) * scaleX (stage (fitRect rect m)))
    \<and> y (stage (fitRect rect m)) + y rect * scaleX (stage (fitRect rect m))
        = height (stage m)
          - (y (stage (fitRect rect m))
             + (y rect + height rect) * scaleX (stage (fitRect rect m)))
    \<and> Fin 20 \<le> x (stage (fitRect rect m)) + x rect * scaleX (stage (fitRect rect m))
    \<and> Fin 20 \<le> y (stage (fitRect rect m)) + y rect * scaleX (stage (fitRect rect m))"
proof -
  let ?m = "fitRect rect m"
  define s where "s = min (min ((cw - 40) / w) ((ch - 40) / h)) 1"
  have sX: "scaleX (stage ?m) = Fin s"
    unfolding s_def fitRect_scaleX using assms by (intro fitRect_scale_Fin) simp_all
  have s_pos: "0 < s" and s_le: "s \<le> 1"
    using assms by (simp_all add: s_def)
  have sw: "w * s \<le> cw - 40"
  proof -
    have "s \<le> (cw - 40) / w" by (simp add: s_def)
    then show ?thesis using assms(1) by (simp add: pos_le_divide_eq mult.commute)
  qed
  have sh: "h * s \<le> ch - 40"
  proof -
    have "s \<le> (ch - 40) / h" by (simp add: s_def)
    then show ?thesis using assms(2) by (simp add: pos_le_divide_eq mult.commute)
  qed
  have pX: "x (stage ?m) = Fin (- rx * s + 20 + (cw - 40 - w * s) / 2)"
    by (subst fitRect_x) (simp add: sX assms numeral_number minus_Fin)
  have pY: "y (stage ?m) = Fin (- ry * s + 20 + (ch - 40 - h * s) / 2)"
    by (subst fitRect_y) (simp add: sX assms numeral_number minus_Fin)
  have c1: "scaleX (stage ?m) = Math_min (Math_min ((width (stage m) - 40) / width rect)
          ((height (stage m) - 40) / height rect)) 1"
    using assms by (simp add: sX numeral_number one_number_def minus_Fin Math_min_Fin s_def)
  have c3: "scaleY (stage ?m) = scaleX (stage ?m)"
    by (rule fitRect_scaleY)
  have c4: "scale (stageAttrs ?m) = scaleX (stage ?m)" "x (stageAttrs ?m) = x (stage ?m)"
      "y (stageAttrs ?m) = y (stage ?m)"
    by (simp_all add: fitRect_stageAttrs)
  have c5: "0 < scaleX (stage ?m)" "scaleX (stage ?m) \<le> 1"
    using s_pos s_le by (simp_all add: sX zero_number_def one_number_def)
  have c6: "x (stage ?m) + x rect * scaleX (stage ?m)
        = width (stage m) - (x (stage ?m) + (x rect + width rect) * scaleX (stage ?m))"
    using assms by (simp add: sX pX minus_Fin algebra_simps)
  have c7: "y (stage ?m) + y rect * scaleX (stage ?m)
        = height (stage m) - (y (stage ?m) + (y rect + height rect) * scaleX (stage ?m))"
    using assms by (simp add: sX pY minus_Fin algebra_simps)
  have c8: "Fin 20 \<le> x (stage ?m) + x rect * scaleX (stage ?m)"
    using assms sw by (simp add: sX pX)
  have c9: "Fin 20 \<le> y (stage ?m) + y rect * scaleX (stage ?m)"
    using assms sh by (simp add: sX pY)
  show ?thesis
    using c1 sX c3 c4 c5 c6 c7 c8 c9 unfolding s_def by (intro conjI)
qed

text \<open>
  A rect of 1520 by 1000 at (10, 10) in a container of 800 by 600: the scale is 0.5,
  the stage offset (15, 45), the left and right margins 20, the top and bottom margins 50.
\<close>

theorem fitRect_fits_and_centers_witness:
  "scaleX (stage (fitRect \<lparr>x = 10, y = 10, width = 1520, height = 1000\<rparr>
       (example_stage 800 600))) = Fin (1 / 2)
   \<and> x (stage (fitRect \<lparr>x = 10, y = 10, width = 1520, height = 1000\<rparr>
       (example_stage 800 600))) = Fin 15
   \<and> y (stage (fitRect \<lparr>x = 10, y = 10, width = 1520, height = 1000\<rparr>
       (example_stage 800 600))) = Fin 45
   \<and> x (stage (fitRect \<lparr>x = 10, y = 10, width = 1520, height = 1000\<rparr>
         (example_stage 800 600)))
       + 10 * scaleX (stage (fitRect \<lparr>x = 10, y = 10, width = 1520, height = 1000\<rparr>
         (example_stage 800 600))) = Fin 20
   \<and> y (stage (fitRect \<lparr>x = 10, y = 10, width = 1520, height = 1000\<rparr>
         (example_stage 800 600)))
       + 10 * scaleX (stage (fitRect \<lparr>x = 10, y = 10, width = 1520, height = 1000\<rparr>
         (example_stage 800 600))) = Fin 50"
proof -
  let ?r = "\<lparr>x = 10, y = 10, width = 1520, height = 1000\<rparr> :: Rect"
  let ?m = "example_stage 800 600"
  have "scaleX (stage (fitRect ?r ?m))
      = Fin (min (min ((800 - 40) / 1520) ((600 - 40) / 1000)) 1)"
    by (rule fitRect_fits_and_centers [of 1520 1000 800 600 ?m ?r 10 10,
          THEN conjunct2, THEN conjunct1])
      (simp_all add: example_stage_stage numeral_number)
  then have sX: "scaleX (stage (fitRect ?r ?m)) = Fin (1 / 2)"
    by simp
  have pX: "x (stage (fitRect ?r ?m)) = Fin 15"
    using sX by (subst fitRect_x) (simp add: example_stage_stage numeral_number minus_Fin)
  have pY: "y (stage (fitRect ?r ?m)) = Fin 45"
    using sX by (subst fitRect_y) (simp add: example_stage_stage numeral_number minus_Fin)
  show ?thesis
    using sX pX pY by (simp add: numeral_number)
qed

text \<open>
  Claim C7, as amended. \<open>fitRect\<close> has no guard and no clamp, and a division by zero does
  not fail: it yields an infinity. For a rect without size (width 0 and height 0) in a
  container whose available width and height are positive, both quotients are
  \<open>Infinity\<close> and the scale is the unit scale 1, with a finite offset. For a container
  without size (width 0 and height 0) and a rect of positive finite size, the available
  width and height are -40 and the scale is \<open>min (-40 / w) (-40 / h)\<close>, a negative number.
  Of the callers, \<open>fitBboxToStage\<close> fits the bbox rect as it is, and \<open>fitLayersToStage\<close>
  fits the bbox rect in place of a union of the layers' rects that has no size.
\<close>

theorem fitRect_degenerate:
  fixes cw ch rx ry w h :: real
  assumes "40 < cw" and "40 < ch" and "0 < w" and "0 < h"
  shows "scaleX (stage (fitRect \<lparr>x = Fin rx, y = Fin ry, width = 0, height = 0\<rparr>
            (m\<lparr>stage := (stage m)\<lparr>width := Fin cw, height := Fin ch\<rparr>\<rparr>))) = 1
    \<and> x (stage (fitRect \<lparr>x = Fin rx, y = Fin ry, width = 0, height = 0\<rparr>
            (m\<lparr>stage := (stage m)\<lparr>width := Fin cw, height := Fin ch\<rparr>\<rparr>)))
        = Fin (- rx + 20 + (cw - 40) / 2)
    \<and> y (stage (fitRect \<lparr>x = Fin rx, y = Fin ry, width = 0, height = 0\<rparr>
            (m\<lparr>stage := (stage m)\<lparr>width := Fin cw, height := Fin ch\<rparr>\<rparr>)))
        = Fin (- ry + 20 + (ch - 40) / 2)
    \<and> scaleX (stage (fitRect \<lparr>x = Fin rx, y = Fin ry, width = Fin w, height = Fin h\<rparr>
            (m\<lparr>stage := (stage m)\<lparr>width := 0, height := 0\<rparr>\<rparr>)))
        = Fin (min (- 40 / w) (- 40 / h))
    \<and> scaleX (stage (fitRect \<lparr>x = Fin rx, y = Fin ry, width = Fin w, height = Fin h\<rparr>
            (m\<lparr>stage := (stage m)\<lparr>width := 0, height := 0\<rparr>\<rparr>))) < 0
    \<and> fitBboxToStage bboxRect m = fitRect bboxRect m
    \<and> fitLayersToStage \<lparr>x = Fin rx, y = Fin ry, width = 0, height = 0\<rparr> bboxRect m
        = fitRect bboxRect m"
proof -
  let ?z = "fitRect \<lparr>x = Fin rx, y = Fin ry, width = 0, height = 0\<rparr>
            (m\<lparr>stage := (stage m)\<lparr>width := Fin cw, height := Fin ch\<rparr>\<rparr>)"
  let ?c = "fitRect \<lparr>x = Fin rx, y = Fin ry, width = Fin w, height = Fin h\<rparr>
            (m\<lparr>stage := (stage m)\<lparr>width := 0, height := 0\<rparr>\<rparr>)"
  have z: "scaleX (stage ?z) = 1"
    using assms(1,2) unfolding fitRect_scaleX
    by (simp add: numeral_number zero_number_def one_number_def minus_Fin Math_min_PosInfinity)
  have zx: "x (stage ?z) = Fin (- rx + 20 + (cw - 40) / 2)"
    using z
    by (subst fitRect_x) (simp add: numeral_number zero_number_def one_number_def minus_Fin)
  have zy: "y (stage ?z) = Fin (- ry + 20 + (ch - 40) / 2)"
    using z
    by (subst fitRect_y) (simp add: numeral_number zero_number_def one_number_def minus_Fin)
  have neg: "- 40 / w < 0" "- 40 / h < 0"
    using assms(3,4) by simp_all
  then have le1: "min (- 40 / w) (- 40 / h) \<le> 1" "min (- 40 / w) (- 40 / h) < 0"
    by linarith+
  have c: "scaleX (stage ?c) = Fin (min (- 40 / w) (- 40 / h))"
    unfolding fitRect_scaleX using assms(3,4) le1(1)
    by (simp add: numeral_number zero_number_def one_number_def minus_Fin Math_min_Fin
        min_absorb1 del: min_less_iff_disj min_le_iff_disj)
  have cneg: "scaleX (stage ?c) < 0"
    unfolding c using le1(2) by (simp add: zero_number_def del: min_less_iff_disj)
  have b: "fitBboxToStage bboxRect m = fitRect bboxRect m"
    by (simp add: fitBboxToStage_def)
  have l: "fitLayersToStage \<lparr>x = Fin rx, y = Fin ry, width = 0, height = 0\<rparr> bboxRect m
      = fitRect bboxRect m"
    by (simp add: fitLayersToStage_def getVisibleRect_def strict_eq_def zero_number_def)
  show ?thesis
    using z zx zy c cneg b l by (intro conjI)
qed

text \<open>
  A rect without size at (10, 10) in a container of 800 by 600 is shown at scale 1 with
  the stage offset (390, 290); a rect of 512 by 256 in a container without size gets
  the scale -0.15625.
\<close>

theorem fitRect_degenerate_witness:
  "scaleX (stage (fitRect \<lparr>x = Fin 10, y = Fin 10, width = 0, height = 0\<rparr>
       ((example_stage 0 0)\<lparr>stage := (stage (example_stage 0 0))\<lparr>width := Fin 800,
          height := Fin 600\<rparr>\<rparr>))) = 1
   \<and> x (stage (fitRect \<lparr>x = Fin 10, y = Fin 10, width = 0, height = 0\<rparr>
       ((example_stage 0 0)\<lparr>stage := (stage (example_stage 0 0))\<lparr>width := Fin 800,
          height := Fin 600\<rparr>\<rparr>))) = Fin 390
   \<and> y (stage (fitRect \<lparr>x = Fin 10, y = Fin 10, width = 0, height = 0\<rparr>
       ((example_stage 0 0)\<lparr>stage := (stage (example_stage 0 0))\<lparr>width := Fin 800,
          height := Fin 600\<rparr>\<rparr>))) = Fin 290
   \<and> scaleX (stage (fitRect \<lparr>x = Fin 10, y = Fin 10, width = Fin 512, height = Fin 256\<rparr>
       ((example_stage 0 0)\<lparr>stage := (stage (example_stage 0 0))\<lparr>width := 0,
          height := 0\<rparr>\<rparr>))) = Fin (- 5 / 32)"
  using fitRect_degenerate [of 800 600 512 256 10 10 "example_stage 0 0"]
  by simp

text \<open>
  The statement of C7 fails for a container without size: a new stage fitted to a
  container of 0 by 0 and then to a rect of 512 by 512 at the origin gets the scale
  \<open>-40 / 512\<close>, which is negative and below the least canvas scale.
\<close>

theorem fitRect_zero_container_counterexample:
  "scaleX (stage (fitRect \<lparr>x = 0, y = 0, width = 512, height = 512\<rparr> (example_stage 0 0)))
       = Fin (- 5 / 64)
   \<and> scaleX (stage (fitRect \<lparr>x = 0, y = 0, width = 512, height = 512\<rparr> (example_stage 0 0)))
       < 0
   \<and> \<not> MIN_CANVAS_SCALE
       \<le> scaleX (stage (fitRect \<lparr>x = 0, y = 0, width = 512, height = 512\<rparr>
            (example_stage 0 0)))"
  by (simp add: fitRect_scaleX example_stage_stage MIN_CANVAS_SCALE_def numeral_number
      zero_number_def one_number_def minus_Fin Math_min_Fin)

section \<open>Rotation snapping in boundBoxFunc\<close>

lemma Math_PI_quarter: "Math_PI / 4 = Fin (884279719003555 / 2 ^ 50)"
  by (simp add: Math_PI_def numeral_number)

lemma rotation_test:
  assumes "q \<noteq> 0"
  shows "(0 < \<bar>js_rem (Fin r) (Fin q)\<bar>) = (\<forall>k::int. r \<noteq> of_int k * q)"
proof -
  have "(0 < \<bar>js_rem (Fin r) (Fin q)\<bar>) = (r - q * of_int (trunc (r / q)) \<noteq> 0)"
    using assms by (simp add: zero_number_def)
  also have "\<dots> = (\<not> (\<exists>k::int. r = of_int k * q))"
    using assms by (subst js_rem_zero_iff) simp_all
  finally show ?thesis
    by blast
qed

lemma half_not_multiple:
  fixes q :: real
  assumes "q \<noteq> 0"
  shows "q / 2 \<noteq> of_int k * q"
proof
  assume "q / 2 = of_int k * q"
  then have "(1::real) = 2 * of_int k"
    using assms by auto
  then have "real_of_int 1 = real_of_int (2 * k)"
    by simp
  then have "1 = 2 * k"
    by (simp only: of_int_eq_iff)
  then show False
    by presburger
qed

text \<open>
  Claim C4. While the rotate anchor is active and shift is held, a candidate box whose
  finite rotation is not an integer multiple of \<open>Math.PI / 4\<close> (the floating-point
  number \<open>884279719003555 / 2^50\<close>) is rejected: the old box is returned unchanged. The
  test of the code, \<open>abs (rotation % (Math.PI / 4)) > 0\<close>, holds exactly for these
  rotations, with no tolerance, and a candidate at an integer multiple is accepted.
  While shift is not held, every candidate box is returned.
\<close>

theorem boundBoxFunc_rotation_snap:
  shows "(rotation newBoundBox = Fin r
          \<and> (\<forall>k::int. r \<noteq> of_int k * (884279719003555 / 2 ^ 50))
        \<longrightarrow> boundBoxFunc (Some ''rotater'') True oldBoundBox newBoundBox = oldBoundBox)
    \<and> (rotation newBoundBox = Fin r
        \<longrightarrow> (0 < \<bar>js_rem (rotation newBoundBox) (Math_PI / 4)\<bar>)
            = (\<forall>k::int. r \<noteq> of_int k * (884279719003555 / 2 ^ 50)))
    \<and> (rotation newBoundBox = Fin (of_int n * (884279719003555 / 2 ^ 50))
        \<longrightarrow> boundBoxFunc (Some ''rotater'') True oldBoundBox newBoundBox = newBoundBox)
    \<and> boundBoxFunc (Some ''rotater'') False oldBoundBox newBoundBox = newBoundBox
    \<and> Math_PI / 4 = Fin (884279719003555 / 2 ^ 50)"
proof -
  let ?q = "884279719003555 / 2 ^ 50 :: real"
  have q: "?q \<noteq> 0"
    by simp
  have test: "(0 < \<bar>js_rem (Fin a) (Math_PI / 4)\<bar>) = (\<forall>k::int. a \<noteq> of_int k * ?q)" for a
    unfolding Math_PI_quarter by (rule rotation_test [OF q])
  have c1: "boundBoxFunc (Some ''rotater'') True oldBoundBox newBoundBox = oldBoundBox"
    if "rotation newBoundBox = Fin r \<and> (\<forall>k::int. r \<noteq> of_int k * ?q)"
  proof -
    from that have "0 < \<bar>js_rem (rotation newBoundBox) (Math_PI / 4)\<bar>"
      by (simp only: test) blast
    then show ?thesis
      by (simp only: boundBoxFunc_def) simp
  qed
  have c2: "(0 < \<bar>js_rem (rotation newBoundBox) (Math_PI / 4)\<bar>)
      = (\<forall>k::int. r \<noteq> of_int k * ?q)"
    if "rotation newBoundBox = Fin r"
    by (simp only: that test)
  have c3: "boundBoxFunc (Some ''rotater'') True oldBoundBox newBoundBox = newBoundBox"
    if "rotation newBoundBox = Fin (of_int n * ?q)"
  proof -
    have eq: "(0 < \<bar>js_rem (rotation newBoundBox) (Math_PI / 4)\<bar>)
        = (\<forall>k::int. of_int n * ?q \<noteq> of_int k * ?q)"
      by (simp only: that test)
    have "\<not> (\<forall>k::int. of_int n * ?q \<noteq> of_int k * ?q)"
      by blast
    with eq have "\<not> 0 < \<bar>js_rem (rotation newBoundBox) (Math_PI / 4)\<bar>"
      by blast
    then show ?thesis
      by (simp only: boundBoxFunc_def) simp
  qed
  have c4: "boundBoxFunc (Some ''rotater'') False oldBoundBox newBoundBox = newBoundBox"
    by (simp only: boundBoxFunc_def) simp
  show ?thesis
    using c1 c2 c3 c4 Math_PI_quarter by blast
qed

text \<open>
  With shift held, a candidate rotated by \<open>Math.PI / 8\<close> is rejected and the unrotated
  old box is kept, and a candidate rotated by three times \<open>Math.PI / 4\<close> is accepted;
  without shift the candidate rotated by \<open>Math.PI / 8\<close> is accepted.
\<close>

theorem boundBoxFunc_rotation_snap_witness:
  "boundBoxFunc (Some ''rotater'') True
       \<lparr>x = 0, y = 0, width = 100, height = 50, rotation = 0\<rparr>
       \<lparr>x = 0, y = 0, width = 100, height = 50,
         rotation = Fin (884279719003555 / 2 ^ 50 / 2)\<rparr>
     = \<lparr>x = 0, y = 0, width = 100, height = 50, rotation = 0\<rparr>
   \<and> boundBoxFunc (Some ''rotater'') True
       \<lparr>x = 0, y = 0, width = 100, height = 50, rotation = 0\<rparr>
       \<lparr>x = 0, y = 0, width = 100, height = 50,
         rotation = Fin (of_int 3 * (884279719003555 / 2 ^ 50))\<rparr>
     = \<lparr>x = 0, y = 0, width = 100, height = 50,
         rotation = Fin (of_int 3 * (884279719003555 / 2 ^ 50))\<rparr>
   \<and> boundBoxFunc (Some ''rotater'') False
       \<lparr>x = 0, y = 0, width = 100, height = 50, rotation = 0\<rparr>
       \<lparr>x = 0, y = 0, width = 100, height = 50,
         rotation = Fin (884279719003555 / 2 ^ 50 / 2)\<rparr>
     = \<lparr>x = 0, y = 0, width = 100, height = 50,
         rotation = Fin (884279719003555 / 2 ^ 50 / 2)\<rparr>"
proof -
  let ?old = "\<lparr>x = 0, y = 0, width = 100, height = 50, rotation = 0\<rparr> :: Box"
  let ?q = "884279719003555 / 2 ^ 50 :: real"
  let ?new = "\<lparr>x = 0, y = 0, width = 100, height = 50, rotation = Fin (?q / 2)\<rparr> :: Box"
  let ?new3 = "\<lparr>x = 0, y = 0, width = 100, height = 50,
    rotation = Fin (of_int 3 * ?q)\<rparr> :: Box"
  have q: "?q \<noteq> 0"
    by simp
  have h: "rotation ?new = Fin (?q / 2) \<and> (\<forall>k::int. ?q / 2 \<noteq> of_int k * ?q)"
    using half_not_multiple [OF q] by simp
  have h3: "rotation ?new3 = Fin (of_int 3 * ?q)"
    by simp
  note th = boundBoxFunc_rotation_snap [of ?new "?q / 2" ?old 3]
  note th3 = boundBoxFunc_rotation_snap [of ?new3 "of_int 3 * ?q" ?old 3]
  have r1: "boundBoxFunc (Some ''rotater'') True ?old ?new = ?old"
    using th h by blast
  have r2: "boundBoxFunc (Some ''rotater'') True ?old ?new3 = ?new3"
    using th3 h3 by blast
  have r3: "boundBoxFunc (Some ''rotater'') False ?old ?new = ?new"
    using th by blast
  show ?thesis
    using r1 r2 r3 by (intro conjI)
qed

section \<open>Drag end and the scale-changed intent\<close>

text \<open>
  Claim C8. At a drag end of the proxy rect: while a transform is in progress nothing is
  dispatched and the store is as before; otherwise exactly one action is dispatched, the
  position-changed action of a layer, whose payload is the id of the parent and the
  position of the proxy rect less the origin of the parent's last known bbox.
\<close>

theorem dragend_dispatch:
  shows "(isTransforming t \<longrightarrow> dragend t st = st)
    \<and> (\<not> isTransforming t \<longrightarrow>
         dragend t st = st @ [layerTranslated \<lparr>id' = id' (parent t),
           position = \<lparr>x = x (proxyRect t) - x (bbox (parent t)),
                        y = y (proxyRect t) - y (bbox (parent t))\<rparr>\<rparr>]
         \<and> length (dragend t st) = length st + 1)"
  by (simp add: dragend_def onPosChanged_def dispatch_def Let_def)

text \<open>
  The example layer, its bbox at (2, 3) and its proxy rect dragged to (10.4, -3.5):
  the delta (8.4, -6.5) is dispatched once; nothing is dispatched during a transform.
\<close>

theorem dragend_dispatch_witness:
  "dragend ((example_transformer 1 1)\<lparr>parent := example_layer\<lparr>bbox :=
         \<lparr>x = 2, y = 3, width = 100, height = 50\<rparr>\<rparr>\<rparr>) ([] :: unit store)
     = [layerTranslated \<lparr>id' = ''layer_1'', position = \<lparr>x = Fin (42 / 5), y = Fin (- 13 / 2)\<rparr>\<rparr>]
   \<and> dragend ((example_transformer 1 1)\<lparr>isTransforming := True\<rparr>) ([] :: unit store) = []"
  using dragend_dispatch [of "(example_transformer 1 1)\<lparr>parent := example_layer\<lparr>bbox :=
         \<lparr>x = 2, y = 3, width = 100, height = 50\<rparr>\<rparr>\<rparr>" "[] :: unit store"]
    dragend_dispatch [of "(example_transformer 1 1)\<lparr>isTransforming := True\<rparr>"
      "[] :: unit store"]
  by (simp add: example_proxyRect example_layer_def example_transformer_def
      new_CanvasTransformer_def numeral_number minus_Fin)

text \<open>
  Claim C9. For every scale-changed argument, \<open>onScaleChanged\<close> with the entity type
  \<open>layer\<close> dispatches nothing and leaves the store as it is; with \<open>inpaint_mask\<close>,
  \<open>regional_guidance\<close> and \<open>control_adapter\<close> it dispatches exactly the one scaled
  action of that entity type, carrying the argument.
\<close>

theorem onScaleChanged_dispatch:
  shows "onScaleChanged arg ''layer'' st = st
    \<and> onScaleChanged arg ''inpaint_mask'' st = st @ [imScaled arg]
    \<and> onScaleChanged arg ''regional_guidance'' st = st @ [rgScaled arg]
    \<and> onScaleChanged arg ''control_adapter'' st = st @ [caScaled arg]"
  by (simp add: onScaleChanged_def dispatch_def)

theorem onScaleChanged_dispatch_witness:
  "onScaleChanged (2 :: number) ''layer'' [] = []
   \<and> onScaleChanged (2 :: number) ''inpaint_mask'' [rgScaled 3] = [rgScaled 3, imScaled 2]"
  using onScaleChanged_dispatch [of "2 :: number" "[]"]
    onScaleChanged_dispatch [of "2 :: number" "[rgScaled 3]"]
  by simp

section \<open>Interaction modes\<close>

lemma setInteractionMode_mode: "interactionMode (setInteractionMode m t) = m"
  by (cases m) (simp_all add: enableDrag_def disableDrag_def enableTransform_def
      disableTransform_def showBboxOutline_def hideBboxOutline_def)

lemma syncInteractionState_interactionMode:
  "interactionMode (syncInteractionState tool sel t) =
     (if \<not> hasObjects (parent t) then off
      else if sel \<and> \<not> isTransforming t \<and> tool = ''move'' then drag
      else if sel \<and> isTransforming t \<and> tool \<noteq> ''view'' then all
      else off)"
  by (simp add: syncInteractionState_def setInteractionMode_mode del: setInteractionMode.simps)

text \<open>
  Claim C3. The interaction mode that \<open>syncInteractionState\<close> sets is a function of
  whether the parent has content, whether it is selected, the selected tool and whether
  a transform is in progress (two transformers that agree on these get the same mode):
  no content gives \<open>off\<close>; content, selected, the move tool and no transform give
  \<open>drag\<close>; content, selected, a transform and a tool other than view give \<open>all\<close>; every
  other combination gives \<open>off\<close>.
\<close>

theorem syncInteractionState_mode:
  shows "(\<not> hasObjects (parent t)
        \<longrightarrow> interactionMode (syncInteractionState tool sel t) = off)
    \<and> (hasObjects (parent t) \<and> sel \<and> tool = ''move'' \<and> \<not> isTransforming t
        \<longrightarrow> interactionMode (syncInteractionState tool sel t) = drag)
    \<and> (hasObjects (parent t) \<and> sel \<and> isTransforming t \<and> tool \<noteq> ''view''
        \<longrightarrow> interactionMode (syncInteractionState tool sel t) = all)
    \<and> (\<not> (sel \<and> tool = ''move'' \<and> \<not> isTransforming t)
        \<and> \<not> (sel \<and> isTransforming t \<and> tool \<noteq> ''view'')
        \<longrightarrow> interactionMode (syncInteractionState tool sel t) = off)
    \<and> (hasObjects (parent t) = hasObjects (parent u) \<and> isTransforming t = isTransforming u
        \<longrightarrow> interactionMode (syncInteractionState tool sel t)
            = interactionMode (syncInteractionState tool sel u))"
proof (intro conjI impI)
  assume "hasObjects (parent t) = hasObjects (parent u) \<and> isTransforming t = isTransforming u"
  then have "hasObjects (parent t) = hasObjects (parent u)"
    and "isTransforming t = isTransforming u"
    by blast+
  then show "interactionMode (syncInteractionState tool sel t)
      = interactionMode (syncInteractionState tool sel u)"
    by (simp only: syncInteractionState_interactionMode)
qed (auto simp add: syncInteractionState_interactionMode)

lemma example_transformer_flags:
  "hasObjects (parent (example_transformer sx sy)) = True"
  "isTransforming (example_transformer sx sy) = False"
  by (simp_all add: example_transformer_def new_CanvasTransformer_def example_layer_def)

text \<open>
  The example transformer, its layer selected: the move tool gives \<open>drag\<close>; during a
  transform the brush tool gives \<open>all\<close> and the view tool \<open>off\<close>; without content the
  mode is \<open>off\<close>; not selected, the mode is \<open>off\<close>.
\<close>

theorem syncInteractionState_mode_witness:
  "interactionMode (syncInteractionState ''move'' True (example_transformer 1 1)) = drag
   \<and> interactionMode (syncInteractionState ''brush'' True
        ((example_transformer 1 1)\<lparr>isTransforming := True\<rparr>)) = all
   \<and> interactionMode (syncInteractionState ''view'' True
        ((example_transformer 1 1)\<lparr>isTransforming := True\<rparr>)) = off
   \<and> interactionMode (syncInteractionState ''move'' True
        ((example_transformer 1 1)\<lparr>parent := example_layer\<lparr>hasObjects := False\<rparr>\<rparr>)) = off
   \<and> interactionMode (syncInteractionState ''move'' False (example_transformer 1 1)) = off"
  using syncInteractionState_mode [of "example_transformer 1 1" "''move''" True]
    syncInteractionState_mode [of "(example_transformer 1 1)\<lparr>isTransforming := True\<rparr>"
      "''brush''" True]
    syncInteractionState_mode [of "(example_transformer 1 1)\<lparr>isTransforming := True\<rparr>"
      "''view''" True]
    syncInteractionState_mode [of "(example_transformer 1 1)\<lparr>parent :=
      example_layer\<lparr>hasObjects := False\<rparr>\<rparr>" "''move''" True]
    syncInteractionState_mode [of "example_transformer 1 1" "''move''" False]
  by (simp add: example_transformer_flags)

text \<open>
  Claim C10. After \<open>setInteractionMode m\<close>: dragging is enabled exactly when \<open>m\<close> is
  \<open>drag\<close> or \<open>all\<close>, transforming is enabled exactly when \<open>m\<close> is \<open>all\<close>, the bbox outline
  is visible exactly when \<open>m\<close> is \<open>drag\<close>, and the interaction mode is \<open>m\<close>.
\<close>

theorem setInteractionMode_flags:
  shows "isDragEnabled (setInteractionMode m t) = (m = drag \<or> m = all)
    \<and> isTransformEnabled (setInteractionMode m t) = (m = all)
    \<and> visible (bboxOutline (setInteractionMode m t)) = (m = drag)
    \<and> interactionMode (setInteractionMode m t) = m"
  by (cases m) (simp_all add: enableDrag_def disableDrag_def enableTransform_def
      disableTransform_def showBboxOutline_def hideBboxOutline_def)

theorem setInteractionMode_flags_witness:
  "isDragEnabled (setInteractionMode all (example_transformer 1 1))
   \<and> isTransformEnabled (setInteractionMode all (example_transformer 1 1))
   \<and> \<not> visible (bboxOutline (setInteractionMode all (example_transformer 1 1)))
   \<and> isDragEnabled (setInteractionMode drag (example_transformer 1 1))
   \<and> \<not> isTransformEnabled (setInteractionMode drag (example_transformer 1 1))
   \<and> visible (bboxOutline (setInteractionMode drag (example_transformer 1 1)))
   \<and> \<not> isDragEnabled (setInteractionMode off (example_transformer 1 1))
   \<and> \<not> visible (bboxOutline (setInteractionMode off (example_transformer 1 1)))"
  using setInteractionMode_flags [of all "example_transformer 1 1"]
    setInteractionMode_flags [of drag "example_transformer 1 1"]
    setInteractionMode_flags [of off "example_transformer 1 1"]
  by simp

end
